theory Spec2Isabelle
  imports Complex_Main
begin

section \<open>Strings\<close>

text \<open>
  Python strings are modelled as \<open>string\<close> (lists of characters). The service only
  concatenates, joins and tests strings for emptiness, so nothing depends on how a code
  point beyond ASCII is represented. \<open>nl\<close> is the line feed written \<open>\n\<close> in the source.
\<close>

definition nl :: string where
  "nl = [CHR 0x0A]"

text \<open>\<open>sep.join(parts)\<close>\<close>

fun str_join :: "string \<Rightarrow> string list \<Rightarrow> string" where
  "str_join sep [] = []"
| "str_join sep [p] = p"
| "str_join sep (p # q # ps) = p @ sep @ str_join sep (q # ps)"

text \<open>\<open>str(n)\<close> for a non-negative integer: its decimal digits, most significant first.\<close>

definition digit_char :: "nat \<Rightarrow> char" where
  "digit_char d = ''0123456789'' ! d"

function str_nat :: "nat \<Rightarrow> string" where
  "str_nat n = (if n < 10 then [digit_char n] else str_nat (n div 10) @ [digit_char (n mod 10)])"
  by pat_completeness auto
termination
  by (relation "measure (\<lambda>n. n)") auto

declare str_nat.simps [simp del]

definition is_digit :: "char \<Rightarrow> bool" where
  "is_digit c = (c \<in> set ''0123456789'')"

section \<open>Prompt construction (services/llm\_service.py, \<open>LLMService.build_prompt\<close>)\<close>

text \<open>
  The source keeps a list \<open>parts\<close>, appends a block for each non-empty input in turn
  (a Python string is true exactly when it is non-empty), appends the user block
  unconditionally and joins the list with \<open>"\n\n"\<close>.
\<close>

definition build_prompt :: "string \<Rightarrow> string \<Rightarrow> string \<Rightarrow> string \<Rightarrow> string" where
  "build_prompt system_prompt context_json rag_context user_message =
     (let parts0 = [];
          parts1 = (if system_prompt \<noteq> [] then parts0 @ [''[System]'' @ nl @ system_prompt]
                    else parts0);
          parts2 = (if context_json \<noteq> [] then parts1 @ [''[Context]'' @ nl @ context_json]
                    else parts1);
          parts3 = (if rag_context \<noteq> [] then parts2 @ [rag_context] else parts2);
          parts4 = parts3 @ [''[User]'' @ nl @ user_message]
      in str_join (nl @ nl) parts4)"

text \<open>
  The specification's wording of the same function: four sections in the fixed order
  System, Context, RAG, User, each with the condition under which it is present.
\<close>

datatype section_kind = System | Context | RAG | User

definition section_present :: "string \<Rightarrow> string \<Rightarrow> string \<Rightarrow> section_kind \<Rightarrow> bool" where
  "section_present system_prompt context_json rag_context k =
     (case k of
        System \<Rightarrow> system_prompt \<noteq> []
      | Context \<Rightarrow> context_json \<noteq> []
      | RAG \<Rightarrow> rag_context \<noteq> []
      | User \<Rightarrow> True)"

definition section_text :: "string \<Rightarrow> string \<Rightarrow> string \<Rightarrow> string \<Rightarrow> section_kind \<Rightarrow> string" where
  "section_text system_prompt context_json rag_context user_message k =
     (case k of
        System \<Rightarrow> ''[System]'' @ nl @ system_prompt
      | Context \<Rightarrow> ''[Context]'' @ nl @ context_json
      | RAG \<Rightarrow> rag_context
      | User \<Rightarrow> ''[User]'' @ nl @ user_message)"

definition prompt_sections :: "string \<Rightarrow> string \<Rightarrow> string \<Rightarrow> section_kind list" where
  "prompt_sections system_prompt context_json rag_context =
     filter (section_present system_prompt context_json rag_context) [System, Context, RAG, User]"

section \<open>Retrieved chunks (services/rag\_service.py)\<close>

text \<open>
  A Python float. A finite float other than the negative zero is the real number it
  denotes exactly (every such float is a rational number; \<open>Finite 0\<close> is the positive
  zero). The negative zero, the two infinities and NaN are values of their own.
\<close>

datatype py_float = Finite real | NegZero | PosInf | NegInf | NaN

text \<open>\<open>RetrievedChunk\<close>. The metadata dictionary is an association list.\<close>

record retrieved_chunk =
  content :: string
  source :: string
  score :: py_float
  metadata :: "(string \<times> string) list"

text \<open>
  \<open>f"{x:.3f}"\<close>. A finite value is rounded to three decimals, ties to the even
  neighbour, and printed with a sign when negative, the integer part, a point and exactly
  three fractional digits; the negative zero keeps its sign. The infinities and NaN are
  printed as \<open>inf\<close>, \<open>-inf\<close> and \<open>nan\<close>, without decimals.
\<close>

definition round_half_even :: "real \<Rightarrow> nat" where
  "round_half_even y =
     (let f = nat \<lfloor>y\<rfloor>; d = y - of_int \<lfloor>y\<rfloor>
      in if d < 1 / 2 then f else if 1 / 2 < d then Suc f else if even f then f else Suc f)"

definition pad3 :: "nat \<Rightarrow> string" where
  "pad3 m = [digit_char (m div 100 mod 10), digit_char (m div 10 mod 10), digit_char (m mod 10)]"

definition format_3f :: "py_float \<Rightarrow> string" where
  "format_3f v =
     (case v of
        Finite x \<Rightarrow>
          (let m = round_half_even (\<bar>x\<bar> * 1000)
           in (if x < 0 then ''-'' else [])
                @ str_nat (m div 1000) @ ''.'' @ pad3 (m mod 1000))
      | NegZero \<Rightarrow> ''-0.000''
      | PosInf \<Rightarrow> ''inf''
      | NegInf \<Rightarrow> ''-inf''
      | NaN \<Rightarrow> ''nan'')"

definition chunk_block :: "nat \<Rightarrow> retrieved_chunk \<Rightarrow> string" where
  "chunk_block idx chunk =
     (let header = ''['' @ str_nat idx @ ''] (source='' @ source chunk
                     @ '', score='' @ format_3f (score chunk) @ '')''
      in header @ nl @ content chunk)"

text \<open>
  \<open>format_rag_context\<close>: the loop over \<open>enumerate(chunks, 1)\<close> appends one block per
  chunk to \<open>parts\<close>, which starts with the header line and ends with the footer line.
\<close>

definition format_rag_context :: "retrieved_chunk list \<Rightarrow> string" where
  "format_rag_context chunks =
     (if chunks = [] then []
      else
        let parts0 = [''### Retrieved Context ###''];
            parts1 = foldl (\<lambda>parts (idx, chunk). parts @ [chunk_block idx chunk])
                       parts0 (List.enumerate 1 chunks);
            parts2 = parts1 @ [''### End Context ###'']
        in str_join (nl @ nl) parts2)"

section \<open>Configuration (core/config.py)\<close>

text \<open>
  The fields of \<open>Settings\<close> that the generation pipeline reads, and
  \<open>llm_max_retries\<close>, which is declared with them ("Max retry attempts for transient
  Ollama failures").
\<close>

record settings =
  ollama_base_url :: string
  ollama_model :: string
  default_temperature :: real
  default_max_tokens :: int
  llm_timeout_seconds :: real
  llm_max_retries :: int
  mlflow_tracking_uri :: string
  mlflow_experiment_name :: string
  rag_top_k :: int

definition default_settings :: settings where
  "default_settings =
     \<lparr> ollama_base_url = ''http://ollama:11434'',
       ollama_model = ''qwen2.5:7b-instruct'',
       default_temperature = 0.7,
       default_max_tokens = 2048,
       llm_timeout_seconds = 120,
       llm_max_retries = 3,
       mlflow_tracking_uri = ''http://mlflow:5000'',
       mlflow_experiment_name = ''ai-agent-generations'',
       rag_top_k = 5 \<rparr>"

section \<open>Dynamic values and exceptions\<close>

text \<open>
  The values of type \<open>Any\<close> that flow through the service come out of a JSON parser,
  so they are JSON values. A dictionary is an association list (Python dictionaries keep
  insertion order and have no duplicate keys).
\<close>

datatype json =
    JNull
  | JBool bool
  | JInt int
  | JFloat real
  | JStr string
  | JArr "json list"
  | JObj "(string \<times> json) list"

text \<open>\<open>d.get(key, default)\<close>\<close>

definition dict_get :: "(string \<times> json) list \<Rightarrow> string \<Rightarrow> json \<Rightarrow> json" where
  "dict_get d k dflt = (case map_of d k of Some v \<Rightarrow> v | None \<Rightarrow> dflt)"

text \<open>
  \<open>len(v)\<close>: defined on strings, lists and dictionaries; a \<open>TypeError\<close> (here
  \<open>None\<close>) on the other values.
\<close>

definition py_len :: "json \<Rightarrow> nat option" where
  "py_len v =
     (case v of JStr s \<Rightarrow> Some (length s) | JArr xs \<Rightarrow> Some (length xs)
      | JObj kvs \<Rightarrow> Some (length kvs) | _ \<Rightarrow> None)"

text \<open>
  \<open>str(v)\<close>: a string is itself; the printed form of any other value is left to the
  parameter \<open>py_repr\<close> (Python's \<open>repr\<close>).
\<close>

definition py_str :: "(json \<Rightarrow> string) \<Rightarrow> json \<Rightarrow> string" where
  "py_str py_repr v = (case v of JStr s \<Rightarrow> s | _ \<Rightarrow> py_repr v)"

text \<open>
  An exception is its class and the text \<open>str(exc)\<close>. Only subclasses of
  \<open>Exception\<close> are modelled (no cancellation, no keyboard interrupt).
  \<open>OtherError\<close> stands for the classes that collaborators outside the repository
  raise and that the service never names.
\<close>

datatype exc_class =
    RuntimeError
  | HTTPStatusError
  | ConnectError
  | TimeoutException
  | JSONDecodeError
  | AttributeError
  | TypeError
  | OtherError

datatype exn = Exn (exn_class: exc_class) (exn_str: string)

section \<open>The inference client (services/llm\_service.py, \<open>LLMService\<close>)\<close>

text \<open>
  \<open>LLMResult\<close>. The dataclass declares \<open>text: str\<close> and integer counters, but its
  fields are filled with whatever the response dictionary holds, so they are JSON values.
\<close>

record llm_result =
  llm_text :: json
  llm_model :: json
  total_duration_ns :: json
  prompt_eval_count :: json
  eval_count :: json
  raw :: "(string \<times> json) list"

text \<open>The request body \<open>{model, prompt, stream, options: {temperature, num_predict}}\<close>.\<close>

record payload =
  pl_model :: string
  pl_prompt :: string
  pl_stream :: bool
  pl_temperature :: real
  pl_num_predict :: int

text \<open>
  What one \<open>POST /api/generate\<close> does: the transport raises, or a response arrives with
  a status code and a body. The body is only ever passed to \<open>orjson.loads\<close>, so it is
  modelled by what the parser makes of it: a decoding error with its message, or a value.
\<close>

datatype http_body = Malformed string | Parsed json

datatype http_outcome = Raises exn | Response nat http_body

text \<open>
  The state that a call changes: the requests sent to the backend so far, the backoff
  sleeps taken, the module-level flag of core/tracking.py, the runs recorded by the
  tracking backend (each the list of calls it accepted) and the events logged.
\<close>

datatype mlflow_call =
    SetTrackingUri string
  | SetExperiment string
  | StartRun
  | LogParams string real int
  | LogText string string
  | LogMetrics real nat
  | SetTag string string

record world =
  posts :: "payload list"
  sleeps :: "nat list"
  experiment_ensured :: bool
  runs :: "mlflow_call list list"
  log_events :: "string list"

definition world0 :: world where
  "world0 = \<lparr> posts = [], sleeps = [], experiment_ensured = False, runs = [], log_events = [] \<rparr>"

text \<open>
  Everything outside the repository that a call depends on: the backend's answer to the
  request with a given number of predecessors, the answer of the tracking backend to each
  call (\<open>None\<close> when it accepts, the exception it raises otherwise), the time the wrapped
  body takes, the process-wide \<open>get_settings()\<close>, and the library functions
  \<open>repr\<close>, \<open>orjson.dumps\<close> and \<open>json.loads\<close> (\<open>None\<close>: \<open>JSONDecodeError\<close>).
\<close>

record env =
  backend :: "nat \<Rightarrow> http_outcome"
  mlflow :: "mlflow_call \<Rightarrow> exn option"
  latency :: real
  app_settings :: settings
  py_repr :: "json \<Rightarrow> string"
  orjson_dumps :: "json \<Rightarrow> exn + string"
  json_loads :: "string \<Rightarrow> json option"

record llm_service =
  llm_settings :: settings
  client_started :: bool

text \<open>\<open>x or default\<close> and \<open>x if x is not None else default\<close> on optional arguments.\<close>

definition str_or :: "string option \<Rightarrow> string \<Rightarrow> string" where
  "str_or x dflt = (case x of None \<Rightarrow> dflt | Some s \<Rightarrow> if s \<noteq> [] then s else dflt)"

definition int_or :: "int option \<Rightarrow> int \<Rightarrow> int" where
  "int_or x dflt = (case x of None \<Rightarrow> dflt | Some k \<Rightarrow> if k \<noteq> 0 then k else dflt)"

definition if_not_none :: "real option \<Rightarrow> real \<Rightarrow> real" where
  "if_not_none x dflt = (case x of None \<Rightarrow> dflt | Some t \<Rightarrow> t)"

text \<open>
  \<open>response.raise_for_status()\<close> raises \<open>HTTPStatusError\<close> unless the status is a
  success (200 to 299). Its message names the kind of status and the code; it is never
  empty.
\<close>

definition is_success :: "nat \<Rightarrow> bool" where
  "is_success status = (200 \<le> status \<and> status \<le> 299)"

definition status_message :: "nat \<Rightarrow> string" where
  "status_message status =
     (if status div 100 = 1 then ''Informational response''
      else if status div 100 = 3 then ''Redirect response''
      else if status div 100 = 4 then ''Client error''
      else if status div 100 = 5 then ''Server error''
      else ''Invalid status code'') @ '' '' @ str_nat status"

text \<open>Lines 167 to 176: the result built from the response dictionary.\<close>

definition llm_result_of :: "string \<Rightarrow> (string \<times> json) list \<Rightarrow> llm_result" where
  "llm_result_of eff_model data =
     \<lparr> llm_text = dict_get data ''response'' (JStr []),
       llm_model = dict_get data ''model'' (JStr eff_model),
       total_duration_ns = dict_get data ''total_duration'' (JInt 0),
       prompt_eval_count = dict_get data ''prompt_eval_count'' (JInt 0),
       eval_count = dict_get data ''eval_count'' (JInt 0),
       raw = data \<rparr>"

text \<open>
  Lines 140 to 154: the optional arguments resolved against the settings, and the
  request body made of them.
\<close>

definition llm_payload ::
  "llm_service \<Rightarrow> string \<Rightarrow> string option \<Rightarrow> real option \<Rightarrow> int option \<Rightarrow> payload" where
  "llm_payload svc prompt model temperature max_tokens =
     (let eff_model = str_or model (ollama_model (llm_settings svc));
          eff_temperature = if_not_none temperature (default_temperature (llm_settings svc));
          eff_max_tokens = int_or max_tokens (default_max_tokens (llm_settings svc))
      in \<lparr> pl_model = eff_model, pl_prompt = prompt, pl_stream = False,
           pl_temperature = eff_temperature, pl_num_predict = eff_max_tokens \<rparr>)"

text \<open>
  The body of \<open>generate\<close>, one attempt: the check that the client exists, the
  request body, one request, \<open>raise_for_status\<close>, the parse, the result, and the
  \<open>len(result.text)\<close> of the log line that follows. A response that is not a JSON
  object has no \<open>get\<close> (\<open>AttributeError\<close>).
\<close>

definition generate_attempt ::
  "llm_service \<Rightarrow> env \<Rightarrow> string \<Rightarrow> string option \<Rightarrow> real option \<Rightarrow> int option
     \<Rightarrow> world \<Rightarrow> (exn + llm_result) \<times> world" where
  "generate_attempt svc e prompt model temperature max_tokens w =
     (if \<not> client_started svc
      then (Inl (Exn RuntimeError ''LLMService not started - call startup() first''), w)
      else
        let pl = llm_payload svc prompt model temperature max_tokens;
            outcome = backend e (length (posts w));
            w' = w\<lparr> posts := posts w @ [pl] \<rparr>
        in (case outcome of
              Raises exc \<Rightarrow> (Inl exc, w')
            | Response status body \<Rightarrow>
                if \<not> is_success status
                then (Inl (Exn HTTPStatusError (status_message status)), w')
                else
                  (case body of
                     Malformed m \<Rightarrow> (Inl (Exn JSONDecodeError m), w')
                   | Parsed v \<Rightarrow>
                       (case v of
                          JObj data \<Rightarrow>
                            (let result = llm_result_of (pl_model pl) data
                             in (case py_len (llm_text result) of
                                   None \<Rightarrow> (Inl (Exn TypeError ''object has no len()''), w')
                                 | Some n \<Rightarrow> (Inr result, w')))
                        | _ \<Rightarrow>
                            (Inl (Exn AttributeError ''object has no attribute get''), w')))))"

text \<open>
  The \<open>@retry\<close> decorator (tenacity), with the arguments the source gives it:
  \<open>retry_if_exception_type((HTTPStatusError, ConnectError))\<close>,
  \<open>stop_after_attempt(3)\<close>, \<open>wait_exponential(multiplier=1, min=1, max=10)\<close> and
  \<open>reraise=True\<close>. After a failed attempt it first asks whether the exception is of a
  retried class (if not, the exception leaves), then whether to stop (if so, the last
  exception is raised again as it is), and otherwise sleeps and calls the body again.
\<close>

definition retry_if_exception_type :: "exn \<Rightarrow> bool" where
  "retry_if_exception_type exc =
     (exn_class exc = HTTPStatusError \<or> exn_class exc = ConnectError)"

definition stop_after_attempt :: "nat \<Rightarrow> nat \<Rightarrow> bool" where
  "stop_after_attempt max_attempt_number attempt_number =
     (max_attempt_number \<le> attempt_number)"

definition wait_exponential :: "nat \<Rightarrow> nat \<Rightarrow> nat \<Rightarrow> nat \<Rightarrow> nat" where
  "wait_exponential multiplier mn mx attempt_number =
     max (max 0 mn) (min (multiplier * 2 ^ (attempt_number - 1)) mx)"

function generate_from ::
  "llm_service \<Rightarrow> env \<Rightarrow> string \<Rightarrow> string option \<Rightarrow> real option \<Rightarrow> int option
     \<Rightarrow> nat \<Rightarrow> world \<Rightarrow> (exn + llm_result) \<times> world" where
  "generate_from svc e prompt model temperature max_tokens attempt_number w =
     (let (r, w') = generate_attempt svc e prompt model temperature max_tokens w
      in case r of
           Inr result \<Rightarrow> (Inr result, w')
         | Inl exc \<Rightarrow>
             if \<not> retry_if_exception_type exc then (Inl exc, w')
             else if stop_after_attempt 3 attempt_number then (Inl exc, w')
             else generate_from svc e prompt model temperature max_tokens (Suc attempt_number)
                    (w'\<lparr> sleeps := sleeps w' @ [wait_exponential 1 1 10 attempt_number] \<rparr>))"
  by pat_completeness auto
termination
  by (relation "measure (\<lambda>(svc, e, prompt, model, temperature, max_tokens, n, w). 3 - n)")
    (auto simp: stop_after_attempt_def)

declare generate_from.simps [simp del]

definition generate ::
  "llm_service \<Rightarrow> env \<Rightarrow> string \<Rightarrow> string option \<Rightarrow> real option \<Rightarrow> int option
     \<Rightarrow> world \<Rightarrow> (exn + llm_result) \<times> world" where
  "generate svc e prompt model temperature max_tokens w =
     generate_from svc e prompt model temperature max_tokens 1 w"

text \<open>
  \<open>generate_structured\<close>: \<open>json.loads(result.text)\<close> raises \<open>TypeError\<close> on a
  value that is not a string and \<open>JSONDecodeError\<close> on a string that is not JSON; both
  are caught. The handler logs \<open>result.text[:200]\<close> before it returns; a list can
  be sliced, a dictionary cannot (\<open>TypeError\<close>, \<open>KeyError\<close> from Python 3.12 on),
  nor can the remaining values (which \<open>generate\<close> never returns as text: they have
  no length).
\<close>

definition generate_structured ::
  "llm_service \<Rightarrow> env \<Rightarrow> string \<Rightarrow> string option \<Rightarrow> real option \<Rightarrow> int option
     \<Rightarrow> world \<Rightarrow> (exn + json) \<times> world" where
  "generate_structured svc e prompt model temperature max_tokens w =
     (let (r, w') = generate svc e prompt model temperature max_tokens w
      in case r of
           Inl exc \<Rightarrow> (Inl exc, w')
         | Inr result \<Rightarrow>
             (case llm_text result of
                JStr s \<Rightarrow>
                  (case json_loads e s of
                     Some parsed \<Rightarrow> (Inr parsed, w')
                   | None \<Rightarrow>
                       (Inr (JObj [(''text'', JStr s)]),
                        w'\<lparr> log_events := log_events w' @ [''llm_service.json_parse_failed''] \<rparr>))
              | JArr xs \<Rightarrow>
                  (Inr (JObj [(''text'', JArr xs)]),
                   w'\<lparr> log_events := log_events w' @ [''llm_service.json_parse_failed''] \<rparr>)
              | JObj kvs \<Rightarrow> (Inl (Exn TypeError ''unhashable type: slice''), w')
              | other \<Rightarrow> (Inl (Exn TypeError ''object is not subscriptable''), w')))"

section \<open>Telemetry (core/tracking.py)\<close>

text \<open>
  \<open>_ensure_experiment\<close>: configures the tracking client once per process. It runs
  before the \<open>try\<close> of \<open>track_generation\<close>, so an exception of the tracking client
  leaves through the caller.
\<close>

definition ensure_experiment :: "env \<Rightarrow> world \<Rightarrow> (exn + unit) \<times> world" where
  "ensure_experiment e w =
     (if experiment_ensured w then (Inr (), w)
      else
        case mlflow e (SetTrackingUri (mlflow_tracking_uri (app_settings e))) of
          Some exc \<Rightarrow> (Inl exc, w)
        | None \<Rightarrow>
            (case mlflow e (SetExperiment (mlflow_experiment_name (app_settings e))) of
               Some exc \<Rightarrow> (Inl exc, w)
             | None \<Rightarrow> (Inr (), w\<lparr> experiment_ensured := True \<rparr>)))"

text \<open>The mutable dictionary \<open>{"output": "", "error": None}\<close> handed to the body.\<close>

record result_bag =
  bag_output :: json
  bag_error :: "string option"

text \<open>
  The calls of the \<open>with mlflow.start_run\<close> block, in order. \<open>if result["error"]\<close>
  is Python truth: \<open>None\<close> and the empty string are both false.
\<close>

definition telemetry_calls ::
  "env \<Rightarrow> string \<Rightarrow> real \<Rightarrow> int \<Rightarrow> string \<Rightarrow> string \<Rightarrow> string \<Rightarrow> result_bag
     \<Rightarrow> mlflow_call list" where
  "telemetry_calls e model_name temperature max_tokens user_message system_prompt full_prompt
       result =
     [ LogParams model_name temperature max_tokens,
       LogText user_message ''user_message.txt'',
       LogText system_prompt ''system_prompt.txt'',
       LogText full_prompt ''full_prompt.txt'',
       LogText (py_str (py_repr e) (bag_output result)) ''generation_output.txt'',
       LogMetrics (latency e) (length (py_str (py_repr e) (bag_output result))) ]
     @ (case bag_error result of
          None \<Rightarrow> [SetTag ''status'' ''success'']
        | Some msg \<Rightarrow>
            if msg \<noteq> [] then [LogText msg ''error.txt'', SetTag ''status'' ''error'']
            else [SetTag ''status'' ''success''])"

text \<open>
  The tracking backend takes the calls one by one; the first it refuses raises and ends
  the block. What it accepted until then stays in the run.
\<close>

fun log_calls ::
  "(mlflow_call \<Rightarrow> exn option) \<Rightarrow> mlflow_call list \<Rightarrow> mlflow_call list
     \<Rightarrow> exn option \<times> mlflow_call list" where
  "log_calls accepts [] logged = (None, logged)"
| "log_calls accepts (c # cs) logged =
     (case accepts c of
        Some exc \<Rightarrow> (Some exc, logged)
      | None \<Rightarrow> log_calls accepts cs (logged @ [c]))"

text \<open>
  The \<open>finally\<close> block: one run is opened and the calls are made in it; any exception
  of the tracking client is logged (\<open>mlflow.logging_failed\<close>) and dropped.
\<close>

definition log_run :: "env \<Rightarrow> mlflow_call list \<Rightarrow> world \<Rightarrow> world" where
  "log_run e calls w =
     (case mlflow e StartRun of
        Some exc \<Rightarrow> w\<lparr> log_events := log_events w @ [''mlflow.logging_failed''] \<rparr>
      | None \<Rightarrow>
          (case log_calls (mlflow e) calls [] of
             (None, logged) \<Rightarrow> w\<lparr> runs := runs w @ [logged] \<rparr>
           | (Some exc, logged) \<Rightarrow>
               w\<lparr> runs := runs w @ [logged],
                  log_events := log_events w @ [''mlflow.logging_failed''] \<rparr>))"

text \<open>
  \<open>track_generation\<close> around a body. The body receives the dictionary and the state
  and returns its outcome with both; an exception of the body is written into
  \<open>result["error"]\<close> and raised again after the \<open>finally\<close> block.
\<close>

definition track_generation ::
  "env \<Rightarrow> string \<Rightarrow> real \<Rightarrow> int \<Rightarrow> string \<Rightarrow> string \<Rightarrow> string
     \<Rightarrow> (result_bag \<Rightarrow> world \<Rightarrow> (exn + 'a) \<times> result_bag \<times> world)
     \<Rightarrow> world \<Rightarrow> (exn + 'a) \<times> world" where
  "track_generation e model_name temperature max_tokens user_message system_prompt full_prompt
       body w =
     (case ensure_experiment e w of
        (Inl exc, w1) \<Rightarrow> (Inl exc, w1)
      | (Inr u, w1) \<Rightarrow>
          let result0 = \<lparr> bag_output = JStr [], bag_error = None \<rparr>;
              (r, result1, w2) = body result0 w1;
              result2 = (case r of
                           Inl exc \<Rightarrow> result1\<lparr> bag_error := Some (exn_str exc) \<rparr>
                         | Inr v \<Rightarrow> result1)
          in (r, log_run e
                   (telemetry_calls e model_name temperature max_tokens user_message
                      system_prompt full_prompt result2) w2))"

text \<open>The status tag of a recorded run, if it has one.\<close>

fun status_tag :: "mlflow_call list \<Rightarrow> string option" where
  "status_tag [] = None"
| "status_tag (SetTag k v # cs) = (if k = ''status'' then Some v else status_tag cs)"
| "status_tag (c # cs) = status_tag cs"

section \<open>The orchestrator (services/orchestrator.py, \<open>AgentOrchestrator\<close>)\<close>

text \<open>
  The retriever is the injected \<open>BaseRetriever\<close>: a function of the query and
  \<open>top_k\<close> that returns chunks or raises. \<open>DummyRetriever\<close> returns no chunk.
\<close>

record orchestrator =
  orch_llm :: llm_service
  orch_retriever :: "string \<Rightarrow> int \<Rightarrow> exn + retrieved_chunk list"
  orch_settings :: settings

definition DummyRetriever :: "string \<Rightarrow> int \<Rightarrow> exn + retrieved_chunk list" where
  "DummyRetriever query top_k = Inr []"

text \<open>The metadata dictionary of step 5.\<close>

definition build_metadata :: "llm_result \<Rightarrow> real \<Rightarrow> int \<Rightarrow> nat \<Rightarrow> (string \<times> json) list" where
  "build_metadata result temperature max_tokens n_chunks =
     [ (''model'', llm_model result),
       (''temperature'', JFloat temperature),
       (''max_tokens'', JInt max_tokens),
       (''eval_count'', eval_count result),
       (''prompt_eval_count'', prompt_eval_count result),
       (''total_duration_ns'', total_duration_ns result),
       (''rag_chunks_used'', JInt (int n_chunks)) ]"

text \<open>
  \<open>AgentOrchestrator.generate\<close>: the effective parameters, the retrieval (outside the
  telemetry wrapper), the prompt, the wrapped call of the client, the metadata and the
  returned dictionary.
\<close>

definition orch_generate ::
  "orchestrator \<Rightarrow> env \<Rightarrow> string \<Rightarrow> string \<Rightarrow> string \<Rightarrow> string option \<Rightarrow> real option
     \<Rightarrow> int option \<Rightarrow> world \<Rightarrow> (exn + (string \<times> json) list) \<times> world" where
  "orch_generate orch e user_message system_prompt context_json model_name temperature
       max_tokens w =
     (let eff_model = str_or model_name (ollama_model (orch_settings orch));
          eff_temperature = if_not_none temperature (default_temperature (orch_settings orch));
          eff_max_tokens = int_or max_tokens (default_max_tokens (orch_settings orch))
      in (case orch_retriever orch user_message (rag_top_k (orch_settings orch)) of
            Inl exc \<Rightarrow> (Inl exc, w)
          | Inr chunks \<Rightarrow>
              (let rag_context = format_rag_context chunks;
                   full_prompt = build_prompt system_prompt context_json rag_context user_message;
                   (r, w') =
                     track_generation e eff_model eff_temperature eff_max_tokens user_message
                       system_prompt full_prompt
                       (\<lambda>result_bag w1.
                          (let (r1, w2) = generate (orch_llm orch) e full_prompt (Some eff_model)
                                            (Some eff_temperature) (Some eff_max_tokens) w1
                           in (case r1 of
                                 Inl exc \<Rightarrow> (Inl exc, result_bag, w2)
                               | Inr llm_res \<Rightarrow>
                                   (Inr llm_res, result_bag\<lparr> bag_output := llm_text llm_res \<rparr>,
                                    w2))))
                       w
               in (case r of
                     Inl exc \<Rightarrow> (Inl exc, w')
                   | Inr llm_res \<Rightarrow>
                       (let md = build_metadata llm_res eff_temperature eff_max_tokens
                                   (length chunks)
                        in (case orjson_dumps e (JObj md) of
                              Inl exc \<Rightarrow> (Inl exc, w')
                            | Inr md_json \<Rightarrow>
                                (Inr [ (''text'', llm_text llm_res),
                                       (''metadata'', JObj md),
                                       (''metadata_json'', JStr md_json) ], w')))))))"

section \<open>The REST transport (transport/rest\_api.py)\<close>









section \<open>Sample collaborators\<close>

text \<open>
  Concrete collaborators for evaluating the model: a started client with the default
  settings, an orchestrator with the \<open>DummyRetriever\<close>, a tracking backend that
  accepts every call, and stand-ins for the library functions that know the few texts
  and values of the examples and refuse everything else: \<open>sample_dumps\<close> raises
  for every value but the metadata of the end-to-end scenario, and \<open>sample_loads\<close>
  rejects every other text, as \<open>json.loads\<close> rejects \<open>hello\<close>.
\<close>

definition sample_service :: llm_service where
  "sample_service = \<lparr> llm_settings = default_settings, client_started = True \<rparr>"

definition sample_orchestrator :: orchestrator where
  "sample_orchestrator =
     \<lparr> orch_llm = sample_service, orch_retriever = DummyRetriever,
       orch_settings = default_settings \<rparr>"

definition sample_metadata :: json where
  "sample_metadata =
     JObj [ (''model'', JStr ''m1''), (''temperature'', JFloat 0.7),
            (''max_tokens'', JInt 2048), (''eval_count'', JInt 3),
            (''prompt_eval_count'', JInt 0), (''total_duration_ns'', JInt 0),
            (''rag_chunks_used'', JInt 0) ]"

definition sample_metadata_text :: string where
  "sample_metadata_text =
     ''{\"model\":\"m1\",\"temperature\":0.7,\"max_tokens\":2048,\"eval_count\":3,''
     @ ''\"prompt_eval_count\":0,\"total_duration_ns\":0,\"rag_chunks_used\":0}''"

definition sample_dumps :: "json \<Rightarrow> exn + string" where
  "sample_dumps v =
     (if v = sample_metadata then Inr sample_metadata_text
      else Inl (Exn TypeError ''Type is not JSON serializable''))"

definition sample_loads :: "string \<Rightarrow> json option" where
  "sample_loads s =
     (if s = sample_metadata_text then Some sample_metadata
      else if s = ''{\"a\":1}'' then Some (JObj [(''a'', JInt 1)])
      else if s = ''[1, 2]'' then Some (JArr [JInt 1, JInt 2])
      else if s = ''42'' then Some (JInt 42)
      else None)"

definition sample_env :: "(nat \<Rightarrow> http_outcome) \<Rightarrow> env" where
  "sample_env b =
     \<lparr> backend = b, mlflow = (\<lambda>c. None), latency = 1 / 4, app_settings = default_settings,
       py_repr = (\<lambda>v. ''<repr>''), orjson_dumps = sample_dumps, json_loads = sample_loads \<rparr>"

section \<open>Helper lemmas on strings and numbers\<close>

lemma str_join_snoc:
  "ps \<noteq> [] \<Longrightarrow> str_join sep (ps @ [p]) = str_join sep ps @ sep @ p"
  by (induction sep ps rule: str_join.induct) auto

lemma is_digit_digit_char: "d < 10 \<Longrightarrow> is_digit (digit_char d)"
proof -
  assume "d < 10"
  then have "d \<in> {0, 1, 2, 3, 4, 5, 6, 7, 8, 9}" by auto
  then show ?thesis by (auto simp: is_digit_def digit_char_def)
qed

lemma pad3_digits: "length (pad3 m) = 3 \<and> list_all is_digit (pad3 m)"
  by (simp add: pad3_def is_digit_digit_char)

lemma str_nat_digits: "str_nat n \<noteq> [] \<and> list_all is_digit (str_nat n)"
proof (induction n rule: str_nat.induct)
  case (1 n)
  show ?case
  proof (cases "n < 10")
    case True
    then show ?thesis by (simp add: str_nat.simps[of n] is_digit_digit_char)
  next
    case False
    with 1 show ?thesis by (simp add: str_nat.simps[of n] is_digit_digit_char)
  qed
qed

lemma str_nat_nonempty: "str_nat n \<noteq> []"
  using str_nat_digits by blast

lemma round_half_even_near:
  assumes "0 \<le> y"
  shows "\<bar>real (round_half_even y) - y\<bar> \<le> 1 / 2"
proof -
  have f: "real (nat \<lfloor>y\<rfloor>) = of_int \<lfloor>y\<rfloor>" using assms by simp
  have b: "of_int \<lfloor>y\<rfloor> \<le> y" "y < of_int \<lfloor>y\<rfloor> + 1" by linarith+
  show ?thesis
    unfolding round_half_even_def Let_def using f b by (simp add: abs_if) linarith
qed

lemma format_3f_shape:
  "\<exists>whole frac. format_3f (Finite x) = (if x < 0 then ''-'' else []) @ whole @ ''.'' @ frac
      \<and> whole \<noteq> [] \<and> list_all is_digit whole
      \<and> length frac = 3 \<and> list_all is_digit frac"
  unfolding format_3f_def Let_def py_float.case
  using pad3_digits str_nat_digits by blast

lemma foldl_blocks:
  "foldl (\<lambda>parts (idx, chunk). parts @ [chunk_block idx chunk]) acc (List.enumerate n chunks)
     = acc @ map (\<lambda>i. chunk_block (n + i) (chunks ! i)) [0..<length chunks]"
proof (induction chunks arbitrary: acc n)
  case Nil
  then show ?case by simp
next
  case (Cons c cs)
  have "map (\<lambda>i. chunk_block (n + i) ((c # cs) ! i)) [0..<length (c # cs)]
      = chunk_block n c # map (\<lambda>i. chunk_block (Suc n + i) (cs ! i)) [0..<length cs]"
    by (simp add: upt_conv_Cons map_Suc_upt[symmetric] del: upt_Suc)
  then show ?case using Cons.IH[of "acc @ [chunk_block n c]" "Suc n"] by simp
qed

section \<open>Helper lemmas on the inference client\<close>

text \<open>One attempt: what a failure status, a transport exception and a success look like.\<close>

lemma generate_attempt_status_error:
  assumes "client_started svc" and "backend e (length (posts w)) = Response status body"
    and "\<not> is_success status"
  shows "generate_attempt svc e prompt model temperature max_tokens w
           = (Inl (Exn HTTPStatusError (status_message status)),
              w\<lparr> posts := posts w @ [llm_payload svc prompt model temperature max_tokens] \<rparr>)"
  using assms by (simp add: generate_attempt_def Let_def)

lemma generate_attempt_raises:
  assumes "client_started svc" and "backend e (length (posts w)) = Raises exc"
  shows "generate_attempt svc e prompt model temperature max_tokens w
           = (Inl exc,
              w\<lparr> posts := posts w @ [llm_payload svc prompt model temperature max_tokens] \<rparr>)"
  using assms by (simp add: generate_attempt_def Let_def)

lemma generate_first_retry:
  assumes "generate_attempt svc e prompt model temperature max_tokens w = (Inl exc, w')"
    and "retry_if_exception_type exc"
  shows "generate svc e prompt model temperature max_tokens w
           = generate_from svc e prompt model temperature max_tokens 2
               (w'\<lparr> sleeps := sleeps w' @ [1] \<rparr>)"
  unfolding generate_def using assms
  by (subst generate_from.simps)
     (simp add: stop_after_attempt_def wait_exponential_def numeral_2_eq_2)

lemma generate_second_retry:
  assumes "generate_attempt svc e prompt model temperature max_tokens w = (Inl exc, w')"
    and "retry_if_exception_type exc"
  shows "generate_from svc e prompt model temperature max_tokens 2 w
           = generate_from svc e prompt model temperature max_tokens 3
               (w'\<lparr> sleeps := sleeps w' @ [2] \<rparr>)"
  using assms
  by (subst generate_from.simps)
     (simp add: stop_after_attempt_def wait_exponential_def numeral_3_eq_3 numeral_2_eq_2)

lemma generate_from_last:
  "generate_from svc e prompt model temperature max_tokens 3 w
     = generate_attempt svc e prompt model temperature max_tokens w"
  by (subst generate_from.simps)
     (simp add: stop_after_attempt_def split: prod.splits sum.splits)

lemma generate_from_no_retry:
  assumes "generate_attempt svc e prompt model temperature max_tokens w = (Inl exc, w')"
    and "\<not> retry_if_exception_type exc"
  shows "generate_from svc e prompt model temperature max_tokens n w = (Inl exc, w')"
  using assms by (subst generate_from.simps) simp

lemma generate_from_success:
  assumes "generate_attempt svc e prompt model temperature max_tokens w = (Inr r, w')"
  shows "generate_from svc e prompt model temperature max_tokens n w = (Inr r, w')"
  using assms by (subst generate_from.simps) simp

lemma wait_exponential_values:
  "wait_exponential 1 1 10 1 = 1" "wait_exponential 1 1 10 2 = 2"
  "1 \<le> wait_exponential 1 1 10 n" "wait_exponential 1 1 10 n \<le> 10"
  "wait_exponential 1 1 10 n = min (2 ^ (n - 1)) 10"
  by (simp_all add: wait_exponential_def)

lemma generate_three_failures:
  assumes a0: "generate_attempt svc e prompt model temperature max_tokens w = (Inl x0, wa)"
    and r0: "retry_if_exception_type x0"
    and a1: "generate_attempt svc e prompt model temperature max_tokens
               (wa\<lparr> sleeps := sleeps wa @ [1] \<rparr>) = (Inl x1, wb)"
    and r1: "retry_if_exception_type x1"
    and a2: "generate_attempt svc e prompt model temperature max_tokens
               (wb\<lparr> sleeps := sleeps wb @ [2] \<rparr>) = (x, wc)"
  shows "generate svc e prompt model temperature max_tokens w = (x, wc)"
proof -
  have "generate svc e prompt model temperature max_tokens w
          = generate_from svc e prompt model temperature max_tokens 2
              (wa\<lparr> sleeps := sleeps wa @ [1] \<rparr>)"
    by (rule generate_first_retry[OF a0 r0])
  also have "\<dots> = generate_from svc e prompt model temperature max_tokens 3
                      (wb\<lparr> sleeps := sleeps wb @ [2] \<rparr>)"
    by (rule generate_second_retry[OF a1 r1])
  also have "\<dots> = (x, wc)"
    by (simp only: generate_from_last a2)
  finally show ?thesis .
qed

lemma error_status_retried:
  assumes started: "client_started svc"
    and resp: "\<forall>k. backend e k = Response status body"
    and err: "\<not> is_success status"
  shows "generate svc e prompt model temperature max_tokens w
           = (Inl (Exn HTTPStatusError (status_message status)),
              w\<lparr> posts := posts w @ replicate 3 (llm_payload svc prompt model temperature max_tokens),
                 sleeps := sleeps w @ [1, 2] \<rparr>)"
proof -
  let ?pl = "llm_payload svc prompt model temperature max_tokens"
  let ?exc = "Exn HTTPStatusError (status_message status)"
  have retry: "retry_if_exception_type ?exc" by (simp add: retry_if_exception_type_def)
  have att: "\<And>w0. generate_attempt svc e prompt model temperature max_tokens w0
                 = (Inl ?exc, w0\<lparr> posts := posts w0 @ [?pl] \<rparr>)"
    using generate_attempt_status_error[OF started _ err] resp by blast
  note generate_three_failures[OF att retry att retry att]
  then show ?thesis by (simp add: numeral_3_eq_3)
qed

lemma connect_errors_three_attempts:
  assumes started: "client_started svc"
    and b0: "backend e (length (posts w)) = Raises x0"
    and b1: "backend e (length (posts w) + 1) = Raises x1"
    and b2: "backend e (length (posts w) + 2) = Raises x2"
    and r0: "retry_if_exception_type x0" and r1: "retry_if_exception_type x1"
  shows "generate svc e prompt model temperature max_tokens w
           = (Inl x2,
              w\<lparr> posts := posts w @ replicate 3 (llm_payload svc prompt model temperature max_tokens),
                 sleeps := sleeps w @ [1, 2] \<rparr>)"
proof -
  let ?pl = "llm_payload svc prompt model temperature max_tokens"
  have att: "\<And>w0 x. backend e (length (posts w0)) = Raises x \<Longrightarrow>
                 generate_attempt svc e prompt model temperature max_tokens w0
                 = (Inl x, w0\<lparr> posts := posts w0 @ [?pl] \<rparr>)"
    by (rule generate_attempt_raises[OF started])
  have a0: "generate_attempt svc e prompt model temperature max_tokens w
              = (Inl x0, w\<lparr> posts := posts w @ [?pl] \<rparr>)"
    by (rule att[OF b0])
  note a1 = att[of "w\<lparr> posts := posts w @ [?pl] \<rparr>\<lparr> sleeps := sleeps (w\<lparr> posts := posts w @ [?pl] \<rparr>) @ [1] \<rparr>" x1]
  have a1': "generate_attempt svc e prompt model temperature max_tokens
               (w\<lparr> posts := posts w @ [?pl] \<rparr>\<lparr> sleeps := sleeps (w\<lparr> posts := posts w @ [?pl] \<rparr>) @ [1] \<rparr>)
             = (Inl x1, w\<lparr> posts := posts w @ [?pl, ?pl], sleeps := sleeps w @ [1] \<rparr>)"
    using a1 b1 by simp
  have a2': "generate_attempt svc e prompt model temperature max_tokens
               (w\<lparr> posts := posts w @ [?pl, ?pl], sleeps := sleeps w @ [1] \<rparr>
                 \<lparr> sleeps := sleeps (w\<lparr> posts := posts w @ [?pl, ?pl], sleeps := sleeps w @ [1] \<rparr>) @ [2] \<rparr>)
             = (Inl x2, w\<lparr> posts := posts w @ [?pl, ?pl, ?pl], sleeps := sleeps w @ [1, 2] \<rparr>)"
    using att[of "w\<lparr> posts := posts w @ [?pl, ?pl], sleeps := sleeps w @ [1, 2] \<rparr>" x2] b2
    by (simp add: numeral_2_eq_2)
  note generate_three_failures[OF a0 r0 a1' r1 a2']
  then show ?thesis by (simp add: numeral_3_eq_3)
qed


lemma generate_attempt_Inr:
  assumes "generate_attempt svc e prompt model temperature max_tokens w = (Inr r, w')"
  shows "client_started svc
     \<and> w' = w\<lparr> posts := posts w @ [llm_payload svc prompt model temperature max_tokens] \<rparr>
     \<and> (\<exists>status. is_success status
           \<and> backend e (length (posts w)) = Response status (Parsed (JObj (raw r))))
     \<and> r = llm_result_of (str_or model (ollama_model (llm_settings svc))) (raw r)"
  using assms
  by (auto simp: generate_attempt_def Let_def llm_payload_def llm_result_of_def
           split: if_splits http_outcome.splits http_body.splits json.splits option.splits)

lemma generate_from_Inr:
  "generate_from svc e prompt model temperature max_tokens n w = (Inr r, w')
   \<Longrightarrow> \<exists>w0 w1. generate_attempt svc e prompt model temperature max_tokens w0 = (Inr r, w1)"
proof (induction svc e prompt model temperature max_tokens n w rule: generate_from.induct)
  case (1 svc e prompt model temperature max_tokens n w)
  obtain x wa where att: "generate_attempt svc e prompt model temperature max_tokens w = (x, wa)"
    by (cases "generate_attempt svc e prompt model temperature max_tokens w")
  show ?case
  proof (cases x)
    case (Inr r')
    with att "1.prems" show ?thesis
      by (subst (asm) generate_from.simps) auto
  next
    case (Inl exc)
    show ?thesis
    proof (cases "retry_if_exception_type exc \<and> \<not> stop_after_attempt 3 n")
      case True
      with att Inl "1.prems"
      have "generate_from svc e prompt model temperature max_tokens (Suc n)
              (wa\<lparr> sleeps := sleeps wa @ [wait_exponential 1 1 10 n] \<rparr>) = (Inr r, w')"
        by (subst (asm) generate_from.simps) auto
      with "1.IH"[OF att[symmetric] refl Inl] True show ?thesis by blast
    next
      case False
      with att Inl "1.prems" show ?thesis
        by (subst (asm) generate_from.simps) (auto split: if_splits)
    qed
  qed
qed

lemma generate_Inr:
  assumes "generate svc e prompt model temperature max_tokens w = (Inr r, w')"
  shows "(\<exists>status k. is_success status
           \<and> backend e k = Response status (Parsed (JObj (raw r))))
     \<and> r = llm_result_of (str_or model (ollama_model (llm_settings svc))) (raw r)"
proof -
  from assms obtain w0 w1 where
    "generate_attempt svc e prompt model temperature max_tokens w0 = (Inr r, w1)"
    unfolding generate_def using generate_from_Inr by blast
  from generate_attempt_Inr[OF this] show ?thesis by blast
qed

lemma generate_first_success:
  assumes "client_started svc"
    and "backend e (length (posts w)) = Response status (Parsed (JObj data))"
    and "is_success status"
    and "py_len (dict_get data ''response'' (JStr [])) \<noteq> None"
  shows "generate svc e prompt model temperature max_tokens w
     = (Inr (llm_result_of (str_or model (ollama_model (llm_settings svc))) data),
        w\<lparr> posts := posts w @ [llm_payload svc prompt model temperature max_tokens] \<rparr>)"
  unfolding generate_def
  by (rule generate_from_success)
     (use assms in \<open>auto simp: generate_attempt_def Let_def llm_payload_def llm_result_of_def\<close>)



section \<open>Helper lemmas on telemetry\<close>

lemma log_calls_accept_all: "log_calls (\<lambda>c. None) cs logged = (None, logged @ cs)"
  by (induction cs arbitrary: logged) auto


lemma status_tag_telemetry_calls:
  "status_tag (telemetry_calls e m t k um sp fp bag)
     = Some (case bag_error bag of None \<Rightarrow> ''success''
             | Some msg \<Rightarrow> if msg \<noteq> [] then ''error'' else ''success'')"
  by (simp add: telemetry_calls_def split: option.splits)

lemma ensure_experiment_accept_all:
  assumes "\<forall>c. mlflow e c = None"
  shows "ensure_experiment e w = (Inr (), w\<lparr> experiment_ensured := True \<rparr>)"
  using assms by (simp add: ensure_experiment_def)


lemma log_run_accept_all:
  assumes "\<forall>c. mlflow e c = None"
  shows "log_run e calls w = w\<lparr> runs := runs w @ [calls] \<rparr>"
proof -
  from assms have "mlflow e = (\<lambda>c. None)" by (simp add: fun_eq_iff)
  then show ?thesis by (simp add: log_run_def log_calls_accept_all)
qed


text \<open>The outcome of the wrapped body is the outcome of \<open>track_generation\<close>.\<close>

lemma track_generation_outcome:
  assumes "ensure_experiment e w = (Inr u, w1)"
    and "body \<lparr> bag_output = JStr [], bag_error = None \<rparr> w1 = (r, bag, w2)"
  shows "track_generation e m t k um sp fp body w
           = (r, log_run e
                   (telemetry_calls e m t k um sp fp
                      (case r of Inl exc \<Rightarrow> bag\<lparr> bag_error := Some (exn_str exc) \<rparr>
                       | Inr v \<Rightarrow> bag)) w2)"
  using assms by (simp add: track_generation_def Let_def)

lemma track_generation_setup_failure:
  assumes "ensure_experiment e w = (Inl exc, w1)"
  shows "track_generation e m t k um sp fp body w = (Inl exc, w1)"
  using assms by (simp add: track_generation_def)

text \<open>The orchestrator, step by step, once the retrieval has returned.\<close>

lemma orch_generate_unfold:
  assumes retr: "orch_retriever orch user_message (rag_top_k (orch_settings orch)) = Inr chunks"
    and ens: "ensure_experiment e w = (Inr u, w1)"
    and gen: "generate (orch_llm orch) e
                (build_prompt system_prompt context_json (format_rag_context chunks) user_message)
                (Some (str_or model_name (ollama_model (orch_settings orch))))
                (Some (if_not_none temperature (default_temperature (orch_settings orch))))
                (Some (int_or max_tokens (default_max_tokens (orch_settings orch)))) w1 = (r1, w2)"
  shows "orch_generate orch e user_message system_prompt context_json model_name temperature
           max_tokens w =
         (let eff_model = str_or model_name (ollama_model (orch_settings orch));
              eff_temperature = if_not_none temperature (default_temperature (orch_settings orch));
              eff_max_tokens = int_or max_tokens (default_max_tokens (orch_settings orch));
              bag = (case r1 of
                       Inl exc \<Rightarrow> \<lparr> bag_output = JStr [], bag_error = Some (exn_str exc) \<rparr>
                     | Inr res \<Rightarrow> \<lparr> bag_output = llm_text res, bag_error = None \<rparr>);
              w3 = log_run e
                     (telemetry_calls e eff_model eff_temperature eff_max_tokens user_message
                        system_prompt
                        (build_prompt system_prompt context_json (format_rag_context chunks)
                           user_message) bag) w2
          in (case r1 of
                Inl exc \<Rightarrow> (Inl exc, w3)
              | Inr res \<Rightarrow>
                  (case orjson_dumps e
                          (JObj (build_metadata res eff_temperature eff_max_tokens
                                   (length chunks))) of
                     Inl exc \<Rightarrow> (Inl exc, w3)
                   | Inr md_json \<Rightarrow>
                       (Inr [ (''text'', llm_text res),
                              (''metadata'',
                               JObj (build_metadata res eff_temperature eff_max_tokens
                                       (length chunks))),
                              (''metadata_json'', JStr md_json) ], w3))))"
  using assms
  by (cases r1) (simp_all add: orch_generate_def track_generation_def Let_def)

lemma orch_generate_retrieval_failure:
  assumes "orch_retriever orch user_message (rag_top_k (orch_settings orch)) = Inl exc"
  shows "orch_generate orch e user_message system_prompt context_json model_name temperature
           max_tokens w = (Inl exc, w)"
  using assms by (simp add: orch_generate_def Let_def)

lemma orch_generate_setup_failure:
  assumes "orch_retriever orch user_message (rag_top_k (orch_settings orch)) = Inr chunks"
    and "ensure_experiment e w = (Inl exc, w1)"
  shows "orch_generate orch e user_message system_prompt context_json model_name temperature
           max_tokens w = (Inl exc, w1)"
  using assms by (simp add: orch_generate_def track_generation_def Let_def)

text \<open>The definitions that a concrete evaluation unfolds.\<close>

lemmas sample_defs = sample_service_def sample_env_def default_settings_def world0_def
  llm_payload_def str_or_def int_or_def if_not_none_def

text \<open>\<open>generate_structured\<close> on a textual result, and the sample collaborators evaluated.\<close>

lemma generate_structured_cases:
  assumes "generate svc e prompt model temperature max_tokens w = (Inr r, w')"
    and "llm_text r = JStr s"
  shows "fst (generate_structured svc e prompt model temperature max_tokens w)
           = Inr (case json_loads e s of Some parsed \<Rightarrow> parsed
                  | None \<Rightarrow> JObj [(''text'', JStr s)])"
  using assms by (simp add: generate_structured_def split: option.splits)

lemma sample_generate_text:
  "generate sample_service
     (sample_env (\<lambda>k. Response 200 (Parsed (JObj [(''response'', JStr s)])))) ''Hi''
     None None None world0
   = (Inr \<lparr> llm_text = JStr s, llm_model = JStr ''qwen2.5:7b-instruct'',
            total_duration_ns = JInt 0, prompt_eval_count = JInt 0, eval_count = JInt 0,
            raw = [(''response'', JStr s)] \<rparr>,
      world0\<lparr> posts := [\<lparr> pl_model = ''qwen2.5:7b-instruct'', pl_prompt = ''Hi'',
                           pl_stream = False, pl_temperature = 0.7,
                           pl_num_predict = 2048 \<rparr>] \<rparr>)"
  by (subst generate_first_success[where status = 200 and data = "[(''response'', JStr s)]"])
     (simp_all add: sample_defs is_success_def dict_get_def py_len_def llm_result_of_def)

lemma structured_output_examples:
  "fst (generate_structured sample_service
          (sample_env (\<lambda>k. Response 200 (Parsed (JObj [(''response'', JStr ''hello'')]))))
          ''Hi'' None None None world0)
   = Inr (JObj [(''text'', JStr ''hello'')])"
  "fst (generate_structured sample_service
          (sample_env (\<lambda>k. Response 200 (Parsed (JObj [(''response'', JStr ''{\"a\":1}'')]))))
          ''Hi'' None None None world0)
   = Inr (JObj [(''a'', JInt 1)])"
  using generate_structured_cases[OF sample_generate_text[of "''hello''"]]
    generate_structured_cases[OF sample_generate_text[of "''{\"a\":1}''"]]
  by (simp_all add: sample_env_def sample_loads_def sample_metadata_text_def)

lemma sample_ensure:
  "ensure_experiment (sample_env b) w = (Inr (), w\<lparr> experiment_ensured := True \<rparr>)"
  by (rule ensure_experiment_accept_all) (simp add: sample_env_def)

lemma sample_retrieve:
  "orch_retriever sample_orchestrator q (rag_top_k (orch_settings sample_orchestrator)) = Inr []"
  by (simp add: sample_orchestrator_def DummyRetriever_def)

text \<open>
  Whatever the tracking backend does, an exception of the wrapped body leaves
  \<open>track_generation\<close> as it is; when the backend accepts the calls, the run is tagged
  by the truth value of the exception's text.
\<close>

lemma track_generation_body_raises:
  assumes ens: "ensure_experiment e w = (Inr u, w1)"
    and body: "body \<lparr> bag_output = JStr [], bag_error = None \<rparr> w1 = (Inl exc, bag, w2)"
    and acc: "\<forall>c. mlflow e c = None"
  shows "track_generation e m t k um sp fp body w
           = (Inl exc,
              w2\<lparr> runs := runs w2
                   @ [telemetry_calls e m t k um sp fp (bag\<lparr> bag_error := Some (exn_str exc) \<rparr>)] \<rparr>)"
    and "status_tag (telemetry_calls e m t k um sp fp (bag\<lparr> bag_error := Some (exn_str exc) \<rparr>))
           = Some (if exn_str exc \<noteq> [] then ''error'' else ''success'')"
  using track_generation_outcome[where body = body, OF ens body] log_run_accept_all[OF acc]
  by (simp_all add: status_tag_telemetry_calls)

section \<open>Helper lemmas on the orchestrator\<close>









text \<open>
  What a call that returns has gone through: the retrieval returned chunks, the client
  returned a result for the assembled prompt in the state left by the set-up of the
  experiment, and the returned dictionary has the keys \<open>text\<close>, \<open>metadata\<close> and
  \<open>metadata_json\<close>, in that order: \<open>text\<close> is the text of the client's result,
  \<open>metadata\<close> has the seven keys of step 5 with \<open>rag_chunks_used\<close> the number of
  chunks retrieved, and \<open>metadata_json\<close> is the text that \<open>orjson.dumps\<close> returned
  for that metadata dictionary. What a parser reads back from that text is a property of
  the two libraries and of their printing of floats, which are not modelled.
\<close>

lemma orch_generate_returns:
  assumes run: "orch_generate orch e user_message system_prompt context_json model_name
                  temperature max_tokens w = (Inr result, w')"
  shows "\<exists>chunks res md_json w2.
           orch_retriever orch user_message (rag_top_k (orch_settings orch)) = Inr chunks
         \<and> generate (orch_llm orch) e
             (build_prompt system_prompt context_json (format_rag_context chunks) user_message)
             (Some (str_or model_name (ollama_model (orch_settings orch))))
             (Some (if_not_none temperature (default_temperature (orch_settings orch))))
             (Some (int_or max_tokens (default_max_tokens (orch_settings orch))))
             (snd (ensure_experiment e w))
             = (Inr res, w2)
         \<and> result = [(''text'', llm_text res),
                      (''metadata'',
                       JObj [(''model'', llm_model res),
                             (''temperature'',
                              JFloat (if_not_none temperature
                                        (default_temperature (orch_settings orch)))),
                             (''max_tokens'',
                              JInt (int_or max_tokens (default_max_tokens (orch_settings orch)))),
                             (''eval_count'', eval_count res),
                             (''prompt_eval_count'', prompt_eval_count res),
                             (''total_duration_ns'', total_duration_ns res),
                             (''rag_chunks_used'', JInt (int (length chunks)))]),
                      (''metadata_json'', JStr md_json)]
         \<and> orjson_dumps e
             (JObj (build_metadata res
                      (if_not_none temperature (default_temperature (orch_settings orch)))
                      (int_or max_tokens (default_max_tokens (orch_settings orch)))
                      (length chunks))) = Inr md_json"
proof (cases "orch_retriever orch user_message (rag_top_k (orch_settings orch))")
  case (Inl exc)
  from orch_generate_retrieval_failure[OF Inl] run show ?thesis by simp
next
  case (Inr chunks)
  let ?fp = "build_prompt system_prompt context_json (format_rag_context chunks) user_message"
  let ?m = "str_or model_name (ollama_model (orch_settings orch))"
  let ?t = "if_not_none temperature (default_temperature (orch_settings orch))"
  let ?k = "int_or max_tokens (default_max_tokens (orch_settings orch))"
  obtain x w1 where ens: "ensure_experiment e w = (x, w1)" by (cases "ensure_experiment e w")
  show ?thesis
  proof (cases x)
    case (Inl exc)
    from orch_generate_setup_failure[OF Inr ens[unfolded Inl]] run show ?thesis by simp
  next
    case u: (Inr u)
    obtain r1 w2 where gen: "generate (orch_llm orch) e ?fp (Some ?m) (Some ?t) (Some ?k) w1 = (r1, w2)"
      by (cases "generate (orch_llm orch) e ?fp (Some ?m) (Some ?t) (Some ?k) w1")
    note unf = orch_generate_unfold[OF Inr ens[unfolded u] gen]
    from unf run obtain res where r1: "r1 = Inr res"
      by (cases r1) (auto simp: Let_def)
    let ?md = "build_metadata res ?t ?k (length chunks)"
    from unf run r1 obtain md_json where js: "orjson_dumps e (JObj ?md) = Inr md_json"
      and result: "result = [(''text'', llm_text res), (''metadata'', JObj ?md),
                             (''metadata_json'', JStr md_json)]"
      by (cases "orjson_dumps e (JObj ?md)") (auto simp: Let_def)
    have w1: "snd (ensure_experiment e w) = w1" using ens by simp
    show ?thesis
      using Inr gen[unfolded r1] result js w1
      by (intro exI[of _ chunks] exI[of _ res] exI[of _ md_json] exI[of _ w2])
         (simp add: build_metadata_def)
  qed
qed

section \<open>Prompt construction: the order of the sections\<close>

text \<open>
  Claim C8. For every combination of inputs, \<open>build_prompt\<close> is the join, with one
  blank line (two line feeds) between neighbours, of the sections present, taken in the
  fixed order System, Context, RAG, User. The System, Context and RAG sections are
  present exactly when their source string is non-empty, the User section always. Each
  section carries its source string as it is: the last equation spells the result out,
  every present section followed by the blank line and the user block last.
\<close>

theorem build_prompt_fixed_order:
  "build_prompt system_prompt context_json rag_context user_message =
     str_join (nl @ nl)
       (map (section_text system_prompt context_json rag_context user_message)
          (prompt_sections system_prompt context_json rag_context))
   \<and> prompt_sections system_prompt context_json rag_context =
       (if system_prompt = [] then [] else [System])
       @ (if context_json = [] then [] else [Context])
       @ (if rag_context = [] then [] else [RAG]) @ [User]
   \<and> build_prompt system_prompt context_json rag_context user_message =
       (if system_prompt = [] then [] else ''[System]'' @ nl @ system_prompt @ nl @ nl)
       @ (if context_json = [] then [] else ''[Context]'' @ nl @ context_json @ nl @ nl)
       @ (if rag_context = [] then [] else rag_context @ nl @ nl)
       @ ''[User]'' @ nl @ user_message"
  by (simp add: build_prompt_def prompt_sections_def section_present_def section_text_def)

section \<open>Formatting of the retrieved context\<close>

text \<open>
  Claim C9 (as amended). \<open>format_rag_context\<close> returns the empty string for no chunk.
  Otherwise it joins, with blank lines, the header \<open>### Retrieved Context ###\<close>, one
  block per chunk and the footer \<open>### End Context ###\<close>; the block at position \<open>i\<close>
  (from 0) of the output is made from the chunk at position \<open>i\<close> of the input, so the
  order of retrieval is kept, and it is labelled \<open>i + 1\<close>, with the chunk's source and
  score. A finite score is printed as an optional minus sign, at least one digit, a point
  and exactly three digits, and the number printed is the score in thousandths rounded
  to the nearest integer; the negative zero is printed \<open>-0.000\<close>. A score that is
  infinite or NaN is printed \<open>inf\<close>, \<open>-inf\<close> or \<open>nan\<close>, which has no decimal
  places.
\<close>

theorem format_rag_context_layout:
  "format_rag_context [] = []
   \<and> (chunks \<noteq> [] \<longrightarrow>
        format_rag_context chunks =
          str_join (nl @ nl)
            ([''### Retrieved Context ###'']
             @ map (\<lambda>i. ''['' @ str_nat (i + 1) @ ''] (source='' @ source (chunks ! i)
                          @ '', score='' @ format_3f (score (chunks ! i)) @ '')''
                          @ nl @ content (chunks ! i))
                 [0..<length chunks]
             @ [''### End Context ###'']))
   \<and> (\<forall>x. \<exists>whole frac.
          format_3f (Finite x) = (if x < 0 then ''-'' else []) @ whole @ ''.'' @ frac
          \<and> whole = str_nat (round_half_even (\<bar>x\<bar> * 1000) div 1000)
          \<and> frac = pad3 (round_half_even (\<bar>x\<bar> * 1000) mod 1000)
          \<and> whole \<noteq> [] \<and> list_all is_digit whole
          \<and> length frac = 3 \<and> list_all is_digit frac
          \<and> \<bar>real (round_half_even (\<bar>x\<bar> * 1000)) - \<bar>x\<bar> * 1000\<bar> \<le> 1 / 2)
   \<and> format_3f NegZero = ''-0.000''
   \<and> format_3f PosInf = ''inf''
   \<and> format_3f NegInf = ''-inf''
   \<and> format_3f NaN = ''nan''"
proof (intro conjI impI allI)
  show "format_rag_context [] = []" by (simp add: format_rag_context_def)
next
  assume "chunks \<noteq> []"
  then show "format_rag_context chunks =
          str_join (nl @ nl)
            ([''### Retrieved Context ###'']
             @ map (\<lambda>i. ''['' @ str_nat (i + 1) @ ''] (source='' @ source (chunks ! i)
                          @ '', score='' @ format_3f (score (chunks ! i)) @ '')''
                          @ nl @ content (chunks ! i))
                 [0..<length chunks]
             @ [''### End Context ###''])"
    unfolding format_rag_context_def Let_def foldl_blocks
    by (simp add: chunk_block_def)
next
  fix x :: real
  have "\<bar>real (round_half_even (\<bar>x\<bar> * 1000)) - \<bar>x\<bar> * 1000\<bar> \<le> 1 / 2"
    by (rule round_half_even_near) simp
  then show "\<exists>whole frac.
          format_3f (Finite x) = (if x < 0 then ''-'' else []) @ whole @ ''.'' @ frac
          \<and> whole = str_nat (round_half_even (\<bar>x\<bar> * 1000) div 1000)
          \<and> frac = pad3 (round_half_even (\<bar>x\<bar> * 1000) mod 1000)
          \<and> whole \<noteq> [] \<and> list_all is_digit whole
          \<and> length frac = 3 \<and> list_all is_digit frac
          \<and> \<bar>real (round_half_even (\<bar>x\<bar> * 1000)) - \<bar>x\<bar> * 1000\<bar> \<le> 1 / 2"
    using pad3_digits str_nat_digits by (simp add: format_3f_def Let_def)
qed (simp_all add: format_3f_def)

text \<open>
  Two chunks, the second with the higher score: they stay in the order given, labelled
  1 and 2, and the tie 0.9375 rounds to the even neighbour.
\<close>

theorem format_rag_context_layout_witness:
  "format_rag_context
     [\<lparr> content = ''alpha'', source = ''a.txt'', score = Finite 0.5, metadata = [] \<rparr>,
      \<lparr> content = ''beta'', source = ''b.txt'', score = Finite 0.9375, metadata = [] \<rparr>]
   = ''### Retrieved Context ###'' @ nl @ nl
     @ ''[1] (source=a.txt, score=0.500)'' @ nl @ ''alpha'' @ nl @ nl
     @ ''[2] (source=b.txt, score=0.938)'' @ nl @ ''beta'' @ nl @ nl
     @ ''### End Context ###''"
  using format_rag_context_layout
    [of "[\<lparr> content = ''alpha'', source = ''a.txt'', score = Finite 0.5, metadata = [] \<rparr>,
      \<lparr> content = ''beta'', source = ''b.txt'', score = Finite 0.9375, metadata = [] \<rparr>]"]
  by (simp add: format_3f_def round_half_even_def pad3_def digit_char_def str_nat.simps upt_rec)

text \<open>
  The claim as stated (every score is formatted to three decimal places) fails for a
  chunk whose score is NaN: its label carries \<open>score=nan\<close>.
\<close>

theorem nan_score_counterexample:
  "format_rag_context
     [\<lparr> content = ''alpha'', source = ''a.txt'', score = NaN, metadata = [] \<rparr>]
   = ''### Retrieved Context ###'' @ nl @ nl
     @ ''[1] (source=a.txt, score=nan)'' @ nl @ ''alpha'' @ nl @ nl
     @ ''### End Context ###''"
  by (simp add: format_rag_context_def chunk_block_def format_3f_def str_nat.simps
        digit_char_def)

section \<open>The inference client: which failures are retried\<close>

text \<open>
  Claim C1. The claim says that a non-transient failure (an HTTP 4xx status or a
  malformed body) is surfaced at once and never retried. The decorator retries on
  every \<open>HTTPStatusError\<close>, and \<open>raise_for_status\<close> raises it for a 4xx status as
  for a 5xx one (lemma \<open>error_status_retried\<close>). Evaluated at a backend that answers 400
  to every request: three requests are sent, with sleeps of 1 and 2 seconds between
  them, before the error reaches the caller. (A malformed body is not retried: lemma
  \<open>generate_from_no_retry\<close>.)
\<close>

theorem client_error_400_is_retried:
  "generate sample_service (sample_env (\<lambda>k. Response 400 (Parsed (JObj [])))) ''Hi''
      None None None world0
   = (Inl (Exn HTTPStatusError ''Client error 400''),
      world0\<lparr> posts := replicate 3 \<lparr> pl_model = ''qwen2.5:7b-instruct'', pl_prompt = ''Hi'',
                                     pl_stream = False, pl_temperature = 0.7,
                                     pl_num_predict = 2048 \<rparr>,
              sleeps := [1, 2] \<rparr>)"
  using error_status_retried
    [of sample_service "sample_env (\<lambda>k. Response 400 (Parsed (JObj [])))" 400
        "Parsed (JObj [])" "''Hi''" None None None world0]
  by (simp add: sample_defs is_success_def status_message_def str_nat.simps digit_char_def)

section \<open>The inference client: the attempt limit\<close>

text \<open>
  Claim C6. On failures of the retried classes the client makes three attempts, sleeps
  1 and then 2 seconds between them (\<open>wait_exponential_values\<close>: the delay is
  \<open>min (2 ^ (n - 1)) 10\<close>), and raises the exception of the last attempt as it is (lemma
  \<open>connect_errors_three_attempts\<close>). The limit is the constant 3 of the decorator; the
  setting \<open>llm_max_retries\<close> is never read. Evaluated with \<open>llm_max_retries = 1\<close> and a
  backend that refuses every connection: three requests are sent.
\<close>

theorem retry_limit_ignores_setting:
  "llm_max_retries (llm_settings (sample_service\<lparr> llm_settings := default_settings\<lparr> llm_max_retries := 1 \<rparr> \<rparr>)) = 1
   \<and> generate (sample_service\<lparr> llm_settings := default_settings\<lparr> llm_max_retries := 1 \<rparr> \<rparr>)
       (sample_env (\<lambda>k. Raises (Exn ConnectError ''All connection attempts failed''))) ''Hi''
       None None None world0
     = (Inl (Exn ConnectError ''All connection attempts failed''),
        world0\<lparr> posts := replicate 3 \<lparr> pl_model = ''qwen2.5:7b-instruct'', pl_prompt = ''Hi'',
                                     pl_stream = False, pl_temperature = 0.7,
                                     pl_num_predict = 2048 \<rparr>,
                sleeps := [1, 2] \<rparr>)"
  using connect_errors_three_attempts
    [of "sample_service\<lparr> llm_settings := default_settings\<lparr> llm_max_retries := 1 \<rparr> \<rparr>"
        "sample_env (\<lambda>k. Raises (Exn ConnectError ''All connection attempts failed''))" world0
        "Exn ConnectError ''All connection attempts failed''"
        "Exn ConnectError ''All connection attempts failed''"
        "Exn ConnectError ''All connection attempts failed''" "''Hi''" None None None]
  by (simp add: sample_defs retry_if_exception_type_def)

section \<open>The inference client: defaults for missing response fields\<close>

text \<open>
  Claim C3 (as amended). When \<open>generate\<close> returns a result, \<open>raw\<close> is the object of a
  successful response, and every field is read from it with a default: a missing
  \<open>response\<close> gives the empty string, missing \<open>total_duration\<close>,
  \<open>prompt_eval_count\<close> and \<open>eval_count\<close> give 0, and a missing \<open>model\<close> gives the
  effective model of the request (the \<open>model\<close> argument if it is given and non-empty,
  the configured \<open>ollama_model\<close> otherwise), not the empty string. A field that is
  present is taken as it is.
\<close>

theorem missing_fields_default:
  assumes "generate svc e prompt model temperature max_tokens w = (Inr r, w')"
  shows "(\<exists>status k. is_success status
            \<and> backend e k = Response status (Parsed (JObj (raw r))))
     \<and> (map_of (raw r) ''response'' = None \<longrightarrow> llm_text r = JStr [])
     \<and> (map_of (raw r) ''model'' = None \<longrightarrow>
          llm_model r = JStr (str_or model (ollama_model (llm_settings svc))))
     \<and> (map_of (raw r) ''total_duration'' = None \<longrightarrow> total_duration_ns r = JInt 0)
     \<and> (map_of (raw r) ''prompt_eval_count'' = None \<longrightarrow> prompt_eval_count r = JInt 0)
     \<and> (map_of (raw r) ''eval_count'' = None \<longrightarrow> eval_count r = JInt 0)
     \<and> (\<forall>v. map_of (raw r) ''response'' = Some v \<longrightarrow> llm_text r = v)
     \<and> (\<forall>v. map_of (raw r) ''model'' = Some v \<longrightarrow> llm_model r = v)
     \<and> (\<forall>v. map_of (raw r) ''total_duration'' = Some v \<longrightarrow> total_duration_ns r = v)
     \<and> (\<forall>v. map_of (raw r) ''prompt_eval_count'' = Some v \<longrightarrow> prompt_eval_count r = v)
     \<and> (\<forall>v. map_of (raw r) ''eval_count'' = Some v \<longrightarrow> eval_count r = v)"
proof -
  from generate_Inr[OF assms] have
    ex: "\<exists>status k. is_success status \<and> backend e k = Response status (Parsed (JObj (raw r)))"
    and r: "r = llm_result_of (str_or model (ollama_model (llm_settings svc))) (raw r)"
    by blast+
  have f: "llm_text r = dict_get (raw r) ''response'' (JStr [])"
    "llm_model r = dict_get (raw r) ''model'' (JStr (str_or model (ollama_model (llm_settings svc))))"
    "total_duration_ns r = dict_get (raw r) ''total_duration'' (JInt 0)"
    "prompt_eval_count r = dict_get (raw r) ''prompt_eval_count'' (JInt 0)"
    "eval_count r = dict_get (raw r) ''eval_count'' (JInt 0)"
    by (subst r, simp add: llm_result_of_def)+
  show ?thesis using ex by (simp add: f dict_get_def)
qed

text \<open>A response with only the \<open>response\<close> field, for a request that names the model m7.\<close>

theorem missing_fields_default_witness:
  "generate sample_service
       (sample_env (\<lambda>k. Response 200 (Parsed (JObj [(''response'', JStr ''Hello!'')]))))
       ''Hi'' (Some ''m7'') None None world0
     = (Inr \<lparr> llm_text = JStr ''Hello!'', llm_model = JStr ''m7'', total_duration_ns = JInt 0,
              prompt_eval_count = JInt 0, eval_count = JInt 0,
              raw = [(''response'', JStr ''Hello!'')] \<rparr>,
        world0\<lparr> posts := [\<lparr> pl_model = ''m7'', pl_prompt = ''Hi'', pl_stream = False,
                             pl_temperature = 0.7, pl_num_predict = 2048 \<rparr>] \<rparr>)
   \<and> llm_model \<lparr> llm_text = JStr ''Hello!'', llm_model = JStr ''m7'', total_duration_ns = JInt 0,
              prompt_eval_count = JInt 0, eval_count = JInt 0,
              raw = [(''response'', JStr ''Hello!'')] \<rparr> = JStr (str_or (Some ''m7'') (ollama_model (llm_settings sample_service)))"
proof -
  have g: "generate sample_service
       (sample_env (\<lambda>k. Response 200 (Parsed (JObj [(''response'', JStr ''Hello!'')]))))
       ''Hi'' (Some ''m7'') None None world0
     = (Inr \<lparr> llm_text = JStr ''Hello!'', llm_model = JStr ''m7'', total_duration_ns = JInt 0,
              prompt_eval_count = JInt 0, eval_count = JInt 0,
              raw = [(''response'', JStr ''Hello!'')] \<rparr>,
        world0\<lparr> posts := [\<lparr> pl_model = ''m7'', pl_prompt = ''Hi'', pl_stream = False,
                             pl_temperature = 0.7, pl_num_predict = 2048 \<rparr>] \<rparr>)"
    by (subst generate_first_success[where status = 200 and data = "[(''response'', JStr ''Hello!'')]"])
       (simp_all add: sample_defs is_success_def dict_get_def py_len_def llm_result_of_def)
  from missing_fields_default[OF g] g show ?thesis by simp
qed

text \<open>
  The claim as stated (missing \<open>model\<close> becomes the empty string) fails for the same
  response and a request without a model: the result carries the configured model.
\<close>

theorem missing_model_counterexample:
  "map_of [(''response'', JStr ''Hello!'')] ''model'' = None
   \<and> generate sample_service
       (sample_env (\<lambda>k. Response 200 (Parsed (JObj [(''response'', JStr ''Hello!'')]))))
       ''Hi'' None None None world0
     = (Inr \<lparr> llm_text = JStr ''Hello!'', llm_model = JStr ''qwen2.5:7b-instruct'',
              total_duration_ns = JInt 0, prompt_eval_count = JInt 0, eval_count = JInt 0,
              raw = [(''response'', JStr ''Hello!'')] \<rparr>,
        world0\<lparr> posts := [\<lparr> pl_model = ''qwen2.5:7b-instruct'', pl_prompt = ''Hi'',
                             pl_stream = False, pl_temperature = 0.7,
                             pl_num_predict = 2048 \<rparr>] \<rparr>)
   \<and> JStr ''qwen2.5:7b-instruct'' \<noteq> JStr ''''"
  by (subst generate_first_success[where status = 200 and data = "[(''response'', JStr ''Hello!'')]"])
     (simp_all add: sample_defs is_success_def dict_get_def py_len_def llm_result_of_def)

section \<open>Structured output\<close>

text \<open>
  Claim C5. The claim says that the caller of \<open>generate_structured\<close> always receives
  a mapping. The function returns whatever \<open>json.loads\<close> makes of the text (lemma
  \<open>generate_structured_cases\<close>), and falls back to \<open>{"text": raw}\<close> only when the
  parse fails (lemma \<open>structured_output_examples\<close>: \<open>hello\<close> and \<open>{"a":1}\<close>).
  Evaluated at a backend whose output text is the JSON array \<open>[1, 2]\<close>: the caller
  receives the list, although the function declares the return type
  \<open>dict[str, Any]\<close>.
\<close>

theorem structured_output_not_a_mapping:
  "fst (generate_structured sample_service
          (sample_env (\<lambda>k. Response 200 (Parsed (JObj [(''response'', JStr ''[1, 2]'')]))))
          ''Hi'' None None None world0)
   = Inr (JArr [JInt 1, JInt 2])"
  using generate_structured_cases[OF sample_generate_text[of "''[1, 2]''"]]
  by (simp add: sample_env_def sample_loads_def sample_metadata_text_def)

section \<open>Telemetry: the status tag of a failed call\<close>

text \<open>
  Claim C7. The claim says that whenever the wrapped body raises, the record carries the
  error text and the status tag \<open>error\<close>. The exit block tests \<open>if result["error"]\<close>,
  which is false for the empty string as for \<open>None\<close>, so an exception whose text is
  empty is recorded as a success (lemma \<open>track_generation_body_raises\<close>). Evaluated at
  a backend whose request times out with an exception of empty text (as a read timeout
  of the HTTP client has): the exception reaches the caller unchanged, and the one run
  recorded has no \<open>error.txt\<close> and the tag \<open>success\<close>. (That the exception is raised
  again and that a failure of the tracking backend changes no outcome holds: lemma
  \<open>track_generation_outcome\<close>.)
\<close>

theorem empty_error_text_tagged_success:
  "orch_generate sample_orchestrator (sample_env (\<lambda>k. Raises (Exn TimeoutException '''')))
      ''Hi'' ''You are helpful'' '''' None None None world0
   = (Inl (Exn TimeoutException ''''),
      world0\<lparr> posts := [\<lparr> pl_model = ''qwen2.5:7b-instruct'',
                           pl_prompt = ''[System]'' @ nl @ ''You are helpful'' @ nl @ nl
                                         @ ''[User]'' @ nl @ ''Hi'',
                           pl_stream = False, pl_temperature = 0.7,
                           pl_num_predict = 2048 \<rparr>],
              experiment_ensured := True,
              runs := [[ LogParams ''qwen2.5:7b-instruct'' 0.7 2048,
                         LogText ''Hi'' ''user_message.txt'',
                         LogText ''You are helpful'' ''system_prompt.txt'',
                         LogText (''[System]'' @ nl @ ''You are helpful'' @ nl @ nl
                                    @ ''[User]'' @ nl @ ''Hi'') ''full_prompt.txt'',
                         LogText '''' ''generation_output.txt'',
                         LogMetrics (1 / 4) 0,
                         SetTag ''status'' ''success'' ]] \<rparr>)"
proof -
  let ?e = "sample_env (\<lambda>k. Raises (Exn TimeoutException ''''))"
  let ?w1 = "world0\<lparr> experiment_ensured := True \<rparr>"
  let ?fp = "build_prompt ''You are helpful'' '''' (format_rag_context []) ''Hi''"
  let ?m = "Some (str_or None (ollama_model (orch_settings sample_orchestrator)))"
  let ?t = "Some (if_not_none None (default_temperature (orch_settings sample_orchestrator)))"
  let ?k = "Some (int_or None (default_max_tokens (orch_settings sample_orchestrator)))"
  have att: "generate_attempt (orch_llm sample_orchestrator) ?e ?fp ?m ?t ?k ?w1
               = (Inl (Exn TimeoutException ''''),
                  ?w1\<lparr> posts := posts ?w1 @ [llm_payload (orch_llm sample_orchestrator) ?fp ?m ?t ?k] \<rparr>)"
    by (rule generate_attempt_raises)
       (simp_all add: sample_orchestrator_def sample_service_def sample_env_def)
  have gen: "generate (orch_llm sample_orchestrator) ?e ?fp ?m ?t ?k ?w1
               = (Inl (Exn TimeoutException ''''),
                  ?w1\<lparr> posts := posts ?w1 @ [llm_payload (orch_llm sample_orchestrator) ?fp ?m ?t ?k] \<rparr>)"
    unfolding generate_def
    by (rule generate_from_no_retry[OF att]) (simp add: retry_if_exception_type_def)
  show ?thesis
    by (subst orch_generate_unfold[OF sample_retrieve sample_ensure gen])
       (simp add: Let_def log_run_accept_all sample_env_def telemetry_calls_def py_str_def
          sample_orchestrator_def sample_service_def default_settings_def world0_def
          llm_payload_def str_or_def int_or_def if_not_none_def
          build_prompt_def format_rag_context_def)
qed

section \<open>Telemetry records per call of the orchestrator\<close>




section \<open>Overrides of zero mean the configured default\<close>



end
